theory Spec2Isabelle
  imports Complex_Main "HOL-Library.Word"
begin

section \<open>Dense matrices of the OpenCV C interface\<close>

text \<open>
  The tracker keeps every matrix in a \<open>CvMat\<close>: a row count, a column count and a flat,
  row-major array of single-precision numbers (\<open>data.fl\<close>). The embedding keeps that
  layout. Single-precision arithmetic is idealised as arithmetic on the reals: the
  statements below are about which operations are composed, not about rounding.
  OpenCV aborts on operands whose sizes do not fit; the sizes are hypotheses of the
  theorems instead.
\<close>

record CvMat =
  rows :: nat
  cols :: nat
  fl :: "real list"

text \<open>\<open>cvmGet(m, i, j)\<close> and \<open>cvmSet(m, i, j, v)\<close>: element access in the flat array.\<close>

definition cvmGet :: "CvMat \<Rightarrow> nat \<Rightarrow> nat \<Rightarrow> real" where
  "cvmGet m i j = fl m ! (i * cols m + j)"

definition cvmSet :: "CvMat \<Rightarrow> nat \<Rightarrow> nat \<Rightarrow> real \<Rightarrow> CvMat" where
  "cvmSet m i j v = m\<lparr>fl := (fl m)[i * cols m + j := v]\<rparr>"

text \<open>\<open>cvSub(a, b, dst)\<close>: the element-wise difference, of the size of \<open>a\<close>.\<close>

definition cvSub :: "CvMat \<Rightarrow> CvMat \<Rightarrow> CvMat" where
  "cvSub a b = a\<lparr>fl := map2 (-) (fl a) (fl b)\<rparr>"

text \<open>The transposed view that the flags \<open>CV_GEMM_A_T\<close> and \<open>CV_GEMM_B_T\<close> select.\<close>

definition cvT :: "CvMat \<Rightarrow> CvMat" where
  "cvT m = \<lparr>rows = cols m, cols = rows m,
            fl = concat (map (\<lambda>j. map (\<lambda>i. cvmGet m i j) [0..<rows m]) [0..<cols m])\<rparr>"

definition cvMatMul :: "CvMat \<Rightarrow> CvMat \<Rightarrow> CvMat" where
  "cvMatMul a b = \<lparr>rows = rows a, cols = cols b,
     fl = concat (map (\<lambda>i. map (\<lambda>j. sum_list (map (\<lambda>l. cvmGet a i l * cvmGet b l j) [0..<cols a]))
                                  [0..<cols b]) [0..<rows a])\<rparr>"

definition cvScale :: "real \<Rightarrow> CvMat \<Rightarrow> CvMat" where
  "cvScale c m = m\<lparr>fl := map (\<lambda>x. c * x) (fl m)\<rparr>"

definition cvAdd :: "CvMat \<Rightarrow> CvMat \<Rightarrow> CvMat" where
  "cvAdd a b = a\<lparr>fl := map2 (+) (fl a) (fl b)\<rparr>"

text \<open>
  \<open>cvGEMM(src1, src2, alpha, src3, beta, dst, flags)\<close> computes
  \<open>alpha * op(src1) * op(src2) + beta * src3\<close>, where the flags transpose an operand
  and a null \<open>src3\<close> means no addend. The destination may be one of the operands: the
  library multiplies into a temporary first.
\<close>

definition cvGEMM :: "CvMat \<Rightarrow> CvMat \<Rightarrow> real \<Rightarrow> CvMat option \<Rightarrow> real \<Rightarrow> bool \<Rightarrow> bool \<Rightarrow> CvMat" where
  "cvGEMM src1 src2 alpha src3 beta a_t b_t =
     (let p = cvScale alpha (cvMatMul (if a_t then cvT src1 else src1) (if b_t then cvT src2 else src2))
      in case src3 of None \<Rightarrow> p | Some c \<Rightarrow> cvAdd p (cvScale beta c))"

section \<open>The camera model and the pixel to world projection\<close>

text \<open>
  \<open>dot_coords.cpp\<close> keeps the camera model in the globals \<open>A\<close>, \<open>k\<close>, \<open>R\<close>, \<open>T\<close>
  (intrinsic matrix, distortion coefficients, rotation, translation).
  \<open>cvUndistortPoints\<close> is a routine of the OpenCV library; it is a parameter of the
  embedding, of this type: intrinsic matrix, distortion coefficients, distorted point,
  normalised point.
\<close>

record camera =
  cam_A :: CvMat
  cam_k :: CvMat
  cam_R :: CvMat
  cam_T :: CvMat

type_synonym undistort = "CvMat \<Rightarrow> CvMat \<Rightarrow> real \<times> real \<Rightarrow> real \<times> real"

text \<open>
  \<open>pixel2world\<close> of \<open>dot_coords.cpp\<close>. The buffer \<open>world\<close> is the global 3 by 1 matrix
  that \<open>setup_world_frame\<close> allocates; it is passed in with whatever the last call left
  in it.
\<close>

definition pixel2world :: "undistort \<Rightarrow> camera \<Rightarrow> CvMat \<Rightarrow> int \<times> int \<Rightarrow> real \<Rightarrow> real \<times> real" where
  "pixel2world cvUndistortPoints cam world p z =
     (let distorted = (real_of_int (fst p), real_of_int (snd p));
          normalized = cvUndistortPoints (cam_A cam) (cam_k cam) distorted;
          world = cvmSet world 0 0 (z * fst normalized);
          world = cvmSet world 1 0 (z * snd normalized);
          world = cvmSet world 2 0 z;
          world = cvSub world (cam_T cam);
          world = cvGEMM (cam_R cam) world 1 None 0 True False
      in (fl world ! 0, fl world ! 1))"

text \<open>
  The window fields that the projection in the tracking loop of \<open>skeleton.cpp\<close> reads
  and writes. The structure is declared in a header that is not part of the sources;
  the fields are the ones the code uses. \<open>img\<close> is the pointer to the frame's pixels,
  \<open>None\<close> for a null pointer.
\<close>

record TrackingWindow =
  roi :: int
  roi_w :: int
  roi_h :: int
  img_w :: int
  img_h :: int
  roi_xoff :: int
  roi_yoff :: int
  blob_xmin :: int
  blob_ymin :: int
  blob_xmax :: int
  blob_ymax :: int
  img :: "nat option"

text \<open>
  Lines 350 to 363 of \<open>skeleton.cpp\<close>: the same projection, inlined in the loop, on the
  centre of the blob box; the depth is the third entry of the translation.
\<close>

definition skeleton_world :: "undistort \<Rightarrow> camera \<Rightarrow> CvMat \<Rightarrow> TrackingWindow \<Rightarrow> real \<Rightarrow> real \<times> real" where
  "skeleton_world cvUndistortPoints cam world cur z =
     (let distorted = (real_of_int (roi_xoff cur) + real_of_int (blob_xmin cur + blob_xmax cur) / 2,
                       real_of_int (roi_yoff cur) + real_of_int (blob_ymin cur + blob_ymax cur) / 2);
          normalized = cvUndistortPoints (cam_A cam) (cam_k cam) distorted;
          world = cvmSet world 0 0 (z * fst normalized);
          world = cvmSet world 1 0 (z * snd normalized);
          world = cvmSet world 2 0 (z * 1);
          world = cvSub world (cam_T cam);
          world = cvGEMM (cam_R cam) world 1 None 0 True False
      in (cvmGet world 0 0, cvmGet world 1 0))"

text \<open>
  The composition as the specification words it, on triples: undistort, scale by the
  depth, subtract the translation, multiply by the transpose of the rotation, keep x
  and y.
\<close>

definition camera_point :: "real \<times> real \<Rightarrow> real \<Rightarrow> real \<times> real \<times> real" where
  "camera_point n z = (z * fst n, z * snd n, z)"

definition sub_translation :: "CvMat \<Rightarrow> real \<times> real \<times> real \<Rightarrow> real \<times> real \<times> real" where
  "sub_translation t c =
     (case c of (c0, c1, c2) \<Rightarrow> (c0 - cvmGet t 0 0, c1 - cvmGet t 1 0, c2 - cvmGet t 2 0))"

definition rotate_transposed :: "CvMat \<Rightarrow> real \<times> real \<times> real \<Rightarrow> real \<times> real \<times> real" where
  "rotate_transposed r d =
     (case d of (d0, d1, d2) \<Rightarrow>
        (cvmGet r 0 0 * d0 + cvmGet r 1 0 * d1 + cvmGet r 2 0 * d2,
         cvmGet r 0 1 * d0 + cvmGet r 1 1 * d1 + cvmGet r 2 1 * d2,
         cvmGet r 0 2 * d0 + cvmGet r 1 2 * d1 + cvmGet r 2 2 * d2))"

definition spec_pixelToWorld :: "undistort \<Rightarrow> camera \<Rightarrow> real \<times> real \<Rightarrow> real \<Rightarrow> real \<times> real" where
  "spec_pixelToWorld cvUndistortPoints cam p z =
     (case rotate_transposed (cam_R cam)
             (sub_translation (cam_T cam)
                (camera_point (cvUndistortPoints (cam_A cam) (cam_k cam) p) z)) of
        (x, y, _) \<Rightarrow> (x, y))"

definition is_mat :: "nat \<Rightarrow> nat \<Rightarrow> CvMat \<Rightarrow> bool" where
  "is_mat r c m = (rows m = r \<and> cols m = c \<and> length (fl m) = r * c)"


section \<open>Loading the camera model at start-up\<close>

text \<open>
  \<open>cvLoad\<close> returns a null pointer for a file it cannot read: \<open>None\<close>. The results of
  the calls into the operating system and the frame grabber are inputs of the model.
\<close>

definition EBADF :: int where "EBADF = 9"
definition ENOMEM :: int where "ENOMEM = 12"
definition CV_OK :: int where "CV_OK = 0"
definition FG_OK :: int where "FG_OK = 0"

record startup_env =
  load_intrinsic :: "CvMat option"
  load_distortion :: "CvMat option"
  load_rot :: "CvMat option"
  load_trans :: "CvMat option"
  create_world :: "CvMat option"
  create_normalized :: "CvMat option"
  create_distorted :: "CvMat option"
  priority_class_ok :: bool
  thread_priority_ok :: bool
  last_error :: int
  open_comm_rc :: int
  init_cam_rc :: int
  acquire_imgs_rc :: int

text \<open>
  How the start-up of \<open>main\<close> in \<open>skeleton.cpp\<close> (lines 201 to 296) ends: with a return
  code, with a read through a null pointer (line 295 reads the translation), or in the
  tracking loop with a camera model, the scratch matrix and the depth.
\<close>

datatype startup_result = Exit int | NullRead | Tracking camera CvMat real

definition main_startup :: "startup_env \<Rightarrow> startup_result" where
  "main_startup e =
     (let intrinsic = load_intrinsic e in
      if intrinsic = None then Exit (- EBADF) else
      let distortion = load_distortion e in
      if distortion = None then Exit (- EBADF) else
      let rot = load_rot e in
      if rot = None then Exit (- EBADF) else
      let trans = load_trans e in
      if rot = None then Exit (- EBADF) else
      let world = create_world e in
      if world = None then Exit (- ENOMEM) else
      if create_normalized e = None then Exit (- ENOMEM) else
      if create_distorted e = None then Exit (- ENOMEM) else
      if \<not> priority_class_ok e then Exit (last_error e) else
      if \<not> thread_priority_ok e then Exit (last_error e) else
      if open_comm_rc e \<noteq> FG_OK then Exit (open_comm_rc e) else
      if init_cam_rc e \<noteq> FG_OK then Exit (init_cam_rc e) else
      if acquire_imgs_rc e \<noteq> FG_OK then Exit (acquire_imgs_rc e) else
      (case (intrinsic, distortion, rot, trans, world) of
         (Some a, Some k, Some r, Some t, Some w) \<Rightarrow>
            Tracking \<lparr>cam_A = a, cam_k = k, cam_R = r, cam_T = t\<rparr> w (cvmGet t 2 0)
       | _ \<Rightarrow> NullRead))"

text \<open>
  \<open>setup_world_frame\<close> of \<open>dot_coords.cpp\<close>: the return code, and the globals when it
  is \<open>CV_OK\<close>.
\<close>

definition setup_world_frame ::
  "CvMat option \<Rightarrow> CvMat option \<Rightarrow> CvMat option \<Rightarrow> CvMat option \<Rightarrow>
   CvMat option \<Rightarrow> CvMat option \<Rightarrow> CvMat option \<Rightarrow> int \<times> (camera \<times> CvMat) option" where
  "setup_world_frame A k R T world normalized distorted =
     (case A of None \<Rightarrow> (- EBADF, None) | Some a \<Rightarrow>
     (case k of None \<Rightarrow> (- EBADF, None) | Some k' \<Rightarrow>
     (case R of None \<Rightarrow> (- EBADF, None) | Some r \<Rightarrow>
     (case T of None \<Rightarrow> (- EBADF, None) | Some t \<Rightarrow>
     (case world of None \<Rightarrow> (- ENOMEM, None) | Some w \<Rightarrow>
     (case normalized of None \<Rightarrow> (- ENOMEM, None) | Some _ \<Rightarrow>
     (case distorted of None \<Rightarrow> (- ENOMEM, None) | Some _ \<Rightarrow>
        (CV_OK, Some (\<lparr>cam_A = a, cam_k = k', cam_R = r, cam_T = t\<rparr>, w)))))))))"

section \<open>World coordinates of the chessboard corners\<close>

text \<open>
  C and C++ divide integers towards zero, and the remainder takes the sign of the
  dividend. \<open>Size\<close> is OpenCV's pair of a width and a height. The local \<open>cols\<close> of
  the two routines is written \<open>n_cols\<close>, since \<open>cols\<close> is the field of \<open>CvMat\<close>.
\<close>

definition c_div :: "int \<Rightarrow> int \<Rightarrow> int" where
  "c_div a b = sgn a * sgn b * (\<bar>a\<bar> div \<bar>b\<bar>)"

definition c_mod :: "int \<Rightarrow> int \<Rightarrow> int" where
  "c_mod a b = a - b * c_div a b"

record Size =
  width :: int
  height :: int

definition area :: "Size \<Rightarrow> int" where
  "area s = width s * height s"

type_synonym Point2f = "real \<times> real"
type_synonym Point3f = "real \<times> real \<times> real"

text \<open>
  The loop of lines 71 to 75 of \<open>views_chessbd.cpp\<close>, which fills \<open>world_loc\<close> before
  any frame is read: \<open>x = i % cols\<close>, \<open>y = -i / cols\<close>.
\<close>

definition world_loc_of :: "Size \<Rightarrow> Point3f list" where
  "world_loc_of grid =
     (let num_points = area grid; n_cols = width grid
      in map (\<lambda>i. (real_of_int (c_mod (int i) n_cols), real_of_int (c_div (- int i) n_cols), 0))
             [0..<nat num_points])"




section \<open>One iteration of the tracking loop\<close>

text \<open>
  The body of the \<open>while\<close> loop of \<open>main\<close> in \<open>skeleton.cpp\<close> (lines 300 to 393, with
  \<open>SHOW_DISP\<close> set, without the timing and the display). \<open>windows\<close> is the array
  \<open>wins.windows\<close>; its declared length is in a header that is not part of the sources,
  so it is the length of the list. The image processing routines \<open>threshold\<close>, \<open>erode\<close>
  and \<open>position\<close> live in a file that is not part of the sources either and are
  parameters. What the frame grabber and the serial port answer in one iteration is the
  record \<open>frame_in\<close>. \<open>roi_writes\<close> and \<open>comm\<close> log the calls of \<open>write_roi\<close> and the
  successful calls of \<open>write_comm\<close>.
\<close>

definition THRESHOLD :: int where "THRESHOLD = 254"
definition NEXT_IMAGE :: "32 word" where "NEXT_IMAGE = 1"

record imgproc =
  threshold :: "TrackingWindow \<Rightarrow> int \<Rightarrow> TrackingWindow"
  erode :: "TrackingWindow \<Rightarrow> TrackingWindow"
  position :: "TrackingWindow \<Rightarrow> TrackingWindow"

record loop_state =
  windows :: "TrackingWindow list"
  img_nr :: "32 word"
  roi_writes :: "(int \<times> TrackingWindow) list"
  comm :: "(nat \<times> real \<times> real \<times> 32 word) list"

record frame_in =
  pic_nr :: "32 word"
  tag_rc :: int
  tag :: "32 word"
  ts_rc :: int
  ts :: "32 word"
  img_ptr :: "nat option"
  comm_rc :: int

text \<open>
  \<open>Next\<close>: the iteration ran to its end; \<open>Stop\<close>: it left the loop with \<open>break\<close>;
  \<open>OutOfArray\<close>: it indexed \<open>wins.windows\<close> past its end, which C leaves undefined (the
  source has no branch for it).
\<close>

datatype loop_outcome = Next loop_state | Stop loop_state | OutOfArray

definition loop_iteration ::
  "imgproc \<Rightarrow> undistort \<Rightarrow> camera \<Rightarrow> CvMat \<Rightarrow> real \<Rightarrow> loop_state \<Rightarrow> frame_in \<Rightarrow> loop_outcome" where
  "loop_iteration ip cvUndistortPoints cam world z s f =
     (let s = s\<lparr>img_nr := pic_nr f\<rparr> in
      if tag_rc f \<noteq> FG_OK then Stop s else
      if ts_rc f \<noteq> FG_OK then Stop s else
      let cur_roi = unat (drop_bit 16 (tag f)) in
      if length (windows s) \<le> cur_roi then OutOfArray else
      let cur = (windows s ! cur_roi)\<lparr>img := img_ptr f\<rparr> in
      if img cur \<noteq> None then
        let cur = position ip (erode ip (threshold ip cur THRESHOLD));
            s = s\<lparr>windows := (windows s)[cur_roi := cur],
                  roi_writes := roi_writes s @ [(roi cur, cur)]\<rparr>;
            xy = skeleton_world cvUndistortPoints cam world cur z
        in if comm_rc f \<noteq> FG_OK then Stop s
           else Next (s\<lparr>comm := comm s @ [(cur_roi, fst xy, snd xy, ts f)],
                        img_nr := img_nr s + NEXT_IMAGE\<rparr>)
      else Stop (s\<lparr>windows := (windows s)[cur_roi := cur]\<rparr>))"

section \<open>Collecting chessboard views\<close>

text \<open>
  What one pass of a collection loop gets from outside: the frame (an identifier stands
  for the pixels), whether the chessboard was found in it, the corners after
  \<open>findChessboardCorners\<close> and sub-pixel refinement, the count of corners found, and the
  key that the single \<open>waitKey\<close> call of the pass returns (-1 when no key is pressed).
  A frame source is a function from the position in the stream to the frame there,
  \<open>None\<close> once the source is exhausted (an empty image, a null pointer); a camera never
  is. The counters of the loops are C integers that stay between 0 and the target count,
  so they never overflow and are integers here.
\<close>

record frame =
  image :: nat
  chssbd_found :: bool
  corners :: "Point2f list"
  corners_found :: int
  kb_input :: int

type_synonym capture = "nat \<Rightarrow> frame option"

definition KEY_i :: int where "KEY_i = 105"
definition KEY_q :: int where "KEY_q = 113"

text \<open>The member \<open>views\<close> of the class \<open>Calibration\<close>.\<close>

record Views =
  pixel :: "Point2f list list"
  world :: "Point3f list list"
  chessboards :: "nat list"
  save_views :: bool

text \<open>Lines 88 to 92 of \<open>views_chessbd.cpp\<close>: a found view is appended.\<close>

definition push_view :: "Views \<Rightarrow> frame \<Rightarrow> Point3f list \<Rightarrow> Views" where
  "push_view views f world_loc =
     views\<lparr>pixel := pixel views @ [corners f],
           world := world views @ [world_loc],
           chessboards := (if save_views views then chessboards views @ [image f]
                           else chessboards views)\<rparr>"

text \<open>
  The \<open>while\<close> loop of \<open>Calibration::getChessboardViews\<close> (lines 78 to 109 of
  \<open>views_chessbd.cpp\<close>), from the position \<open>pos\<close> of the stream on. The result is
  \<open>None\<close> when the loop never ends.
\<close>

partial_function (option) chessboard_loop ::
  "capture \<Rightarrow> int \<Rightarrow> bool \<Rightarrow> Point3f list \<Rightarrow> nat \<Rightarrow> int \<Rightarrow> Views \<Rightarrow> (int \<times> Views) option" where
  "chessboard_loop cam n prompt world_loc pos good_imgs views =
     (if good_imgs < n then
        (case cam pos of
           None \<Rightarrow> Some (good_imgs, views)
         | Some f \<Rightarrow>
             (let views = (if chssbd_found f then push_view views f world_loc else views);
                  good_imgs = (if chssbd_found f then good_imgs + 1 else good_imgs)
              in if chssbd_found f \<and> prompt then
                   (if kb_input f = KEY_i then
                      chessboard_loop cam n prompt world_loc (Suc pos) (good_imgs - 1) views
                    else if kb_input f = KEY_q then Some (good_imgs, views)
                    else chessboard_loop cam n prompt world_loc (Suc pos) good_imgs views)
                 else if kb_input f = KEY_q then Some (good_imgs, views)
                 else chessboard_loop cam n prompt world_loc (Suc pos) good_imgs views))
      else Some (good_imgs, views))"

text \<open>\<open>Calibration::getChessboardViews\<close>: the returned count and the member \<open>views\<close>.\<close>

definition getChessboardViews ::
  "Size \<Rightarrow> Views \<Rightarrow> capture \<Rightarrow> int \<Rightarrow> bool \<Rightarrow> (int \<times> Views) option" where
  "getChessboardViews grid views cam n prompt =
     chessboard_loop cam n prompt (world_loc_of grid) 0 0 views"




section \<open>The Kalman filter\<close>

text \<open>
  The fields of OpenCV's \<open>CvKalman\<close> that the filter steps read and write (the
  temporaries of the library are left out).
\<close>

record CvKalman =
  MP :: nat
  DP :: nat
  CP :: nat
  state_pre :: CvMat
  state_post :: CvMat
  transition_matrix :: CvMat
  control_matrix :: CvMat
  measurement_matrix :: CvMat
  process_noise_cov :: CvMat
  measurement_noise_cov :: CvMat
  error_cov_pre :: CvMat
  gain :: CvMat
  error_cov_post :: CvMat

text \<open>
  Library routines. \<open>cvCreateMat\<close> leaves the entries undefined; they are zero here,
  and the code below overwrites them before it reads them. \<open>cvSetIdentity(m, s)\<close>
  puts \<open>s\<close> on the diagonal and zero elsewhere. \<open>memcpy\<close> of \<open>n\<close> numbers overwrites
  the first \<open>n\<close> entries of the destination.
\<close>

definition cvCreateMat :: "nat \<Rightarrow> nat \<Rightarrow> CvMat" where
  "cvCreateMat r c = \<lparr>rows = r, cols = c, fl = replicate (r * c) 0\<rparr>"

definition cvZero :: "CvMat \<Rightarrow> CvMat" where
  "cvZero m = m\<lparr>fl := map (\<lambda>_. 0) (fl m)\<rparr>"

definition cvSetIdentity :: "CvMat \<Rightarrow> real \<Rightarrow> CvMat" where
  "cvSetIdentity m s =
     m\<lparr>fl := concat (map (\<lambda>i. map (\<lambda>j. if i = j then s else 0) [0..<cols m]) [0..<rows m])\<rparr>"

definition memcpy_fl :: "real list \<Rightarrow> real list \<Rightarrow> nat \<Rightarrow> real list" where
  "memcpy_fl dst src n = take n src @ drop n dst"

text \<open>
  The determinant by expansion along the first row and the inverse by cofactors, on a
  matrix given by its entries. \<open>cvSolve(a, b, x, CV_SVD)\<close> solves \<open>a * x = b\<close>; for an
  invertible \<open>a\<close> that is \<open>x = inverse a * b\<close>, which is what the model computes.
\<close>

primrec det_n :: "nat \<Rightarrow> (nat \<Rightarrow> nat \<Rightarrow> real) \<Rightarrow> real" where
  "det_n 0 a = 1"
| "det_n (Suc n) a =
     sum_list (map (\<lambda>j. (- 1) ^ j * a 0 j * det_n n (\<lambda>r c. a (Suc r) (if c < j then c else Suc c)))
                   [0..<Suc n])"

definition cvInvert :: "CvMat \<Rightarrow> CvMat" where
  "cvInvert m =
     m\<lparr>fl := concat (map (\<lambda>i. map (\<lambda>j.
              (- 1) ^ (i + j) *
              det_n (rows m - 1)
                (\<lambda>r c. cvmGet m (if r < j then r else Suc r) (if c < i then c else Suc c)) /
              det_n (rows m) (cvmGet m)) [0..<cols m]) [0..<rows m])\<rparr>"

definition cvSolve :: "CvMat \<Rightarrow> CvMat \<Rightarrow> CvMat" where
  "cvSolve a b = cvMatMul (cvInvert a) b"

text \<open>
  \<open>cvKalmanPredict(kalman, control)\<close>: \<open>x' = A x\<close>, plus \<open>B u\<close> when a control vector is
  given and \<open>CP > 0\<close>; \<open>P' = A P A\<^sup>T + Q\<close>.
\<close>

definition cvKalmanPredict :: "CvKalman \<Rightarrow> CvMat option \<Rightarrow> CvKalman" where
  "cvKalmanPredict kalman control =
     (let x = cvGEMM (transition_matrix kalman) (state_post kalman) 1 None 1 False False;
          x = (case control of
                 None \<Rightarrow> x
               | Some u \<Rightarrow> if CP kalman > 0
                           then cvGEMM (control_matrix kalman) u 1 (Some x) 1 False False
                           else x);
          temp1 = cvGEMM (transition_matrix kalman) (error_cov_post kalman) 1 None 1 False False;
          p = cvGEMM temp1 (transition_matrix kalman) 1 (Some (process_noise_cov kalman)) 1 False True
      in kalman\<lparr>state_pre := x, error_cov_pre := p\<rparr>)"

text \<open>
  \<open>cvKalmanCorrect(kalman, measurement)\<close>: \<open>K = P' H\<^sup>T (H P' H\<^sup>T + R)\<^sup>-\<^sup>1\<close>,
  \<open>x = x' + K (z - H x')\<close>, \<open>P = P' - K H P'\<close>.
\<close>

definition cvKalmanCorrect :: "CvKalman \<Rightarrow> CvMat \<Rightarrow> CvKalman" where
  "cvKalmanCorrect kalman measurement =
     (let temp2 = cvGEMM (measurement_matrix kalman) (error_cov_pre kalman) 1 None 1 False False;
          temp3 = cvGEMM temp2 (measurement_matrix kalman) 1 (Some (measurement_noise_cov kalman)) 1 False True;
          temp4 = cvSolve temp3 temp2;
          k = cvT temp4;
          temp5 = cvGEMM (measurement_matrix kalman) (state_pre kalman) (- 1) (Some measurement) 1 False False;
          x = cvGEMM k temp5 1 (Some (state_pre kalman)) 1 False False;
          p = cvGEMM k temp2 (- 1) (Some (error_cov_pre kalman)) 1 False False
      in kalman\<lparr>gain := k, state_post := x, error_cov_post := p\<rparr>)"

definition GRAVITY :: real where "GRAVITY = 9.8"

text \<open>
  \<open>prediction\<close> of \<open>xtal_ball.cpp\<close>. \<open>Z_DIM\<close> is a macro of a header that is not part
  of the sources, so it is a parameter. The measurement \<open>z_k\<close> is a pointer: \<open>None\<close> is
  the null pointer, through which \<open>memcpy\<close> cannot read, and otherwise the list is the
  array it points to. The three copies have fixed lengths, whatever the sizes of the
  filter are: \<open>Z_DIM\<close> numbers from \<open>z_k\<close> into the \<open>MP\<close> entries of \<open>z\<close>, 16 numbers
  into the transition matrix and 4 numbers into the control matrix, which
  \<open>cvCreateKalman\<close> does not allocate (a null pointer) when \<open>CP = 0\<close>. A copy that does
  not fit reads or writes past the end of an array; the model stops there with a crash,
  in the order of lines 23 to 25. When \<open>Z_DIM\<close> is less than \<open>MP\<close> the rest of \<open>z\<close> is
  what \<open>cvCreateMat\<close> left there, zero in the model. The library steps are the
  formulas on matrices of the sizes that \<open>cvCreateKalman\<close> gives.
\<close>

datatype crash = NullPointerRead | NullPointerWrite | OutOfBounds

definition prediction :: "nat \<Rightarrow> CvKalman \<Rightarrow> real \<Rightarrow> real list option \<Rightarrow> crash + CvKalman" where
  "prediction Z_DIM kal dt_k z_k =
     (let z = cvCreateMat (MP kal) 1;
          u = cvCreateMat (CP kal) 1;
          A_k = [1, 0, dt_k, 0,
                 0, 1, 0, dt_k,
                 0, 0, 1, 0,
                 0, 0, 0, 1];
          B_k = [0,
                 0.5 * GRAVITY * dt_k * dt_k,
                 0,
                 GRAVITY * dt_k];
          u = cvZero u
      in case z_k of
           None \<Rightarrow> Inl NullPointerRead
         | Some zs \<Rightarrow>
             if length zs < Z_DIM \<or> length (fl z) < Z_DIM then Inl OutOfBounds
             else if length (fl (transition_matrix kal)) < 16 then Inl OutOfBounds
             else if CP kal = 0 then Inl NullPointerWrite
             else if length (fl (control_matrix kal)) < 4 then Inl OutOfBounds
             else
               (let z = z\<lparr>fl := memcpy_fl (fl z) zs Z_DIM\<rparr>;
                    kal = kal\<lparr>transition_matrix :=
                                (transition_matrix kal)\<lparr>fl := memcpy_fl (fl (transition_matrix kal)) A_k 16\<rparr>\<rparr>;
                    kal = kal\<lparr>control_matrix :=
                                (control_matrix kal)\<lparr>fl := memcpy_fl (fl (control_matrix kal)) B_k 4\<rparr>\<rparr>;
                    kal = cvKalmanPredict kal (Some u)
                in Inr (cvKalmanCorrect kal z)))"

text \<open>
  A filter as \<open>cvCreateKalman(DP, MP, CP)\<close> allocates it: every matrix has the size that
  goes with the three dimensions.
\<close>

definition wf_kalman :: "CvKalman \<Rightarrow> bool" where
  "wf_kalman kal =
     (is_mat (DP kal) 1 (state_pre kal) \<and> is_mat (DP kal) 1 (state_post kal)
      \<and> is_mat (DP kal) (DP kal) (transition_matrix kal)
      \<and> is_mat (DP kal) (CP kal) (control_matrix kal)
      \<and> is_mat (MP kal) (DP kal) (measurement_matrix kal)
      \<and> is_mat (DP kal) (DP kal) (process_noise_cov kal)
      \<and> is_mat (MP kal) (MP kal) (measurement_noise_cov kal)
      \<and> is_mat (DP kal) (DP kal) (error_cov_pre kal)
      \<and> is_mat (DP kal) (MP kal) (gain kal)
      \<and> is_mat (DP kal) (DP kal) (error_cov_post kal))"

text \<open>
  \<open>setup_kalman\<close> of \<open>xtal_ball.cpp\<close>. \<open>kal\<close>, \<open>x0\<close> and \<open>P0\<close> are arrays of pointers
  (\<open>x0\<close> and \<open>P0\<close> may be null themselves). The covariance is copied from the address
  \<open>P0\<close>, that is, from the array of pointers itself: \<open>P0_raw\<close> stands for the numbers
  that a read of the memory at that address yields.
\<close>

definition setup_one ::
  "CvKalman \<Rightarrow> real list option \<Rightarrow> bool \<Rightarrow> real list \<Rightarrow> CvKalman" where
  "setup_one k x0_i P0_i_set P0_raw =
     (let k = k\<lparr>measurement_matrix := cvSetIdentity (measurement_matrix k) 1\<rparr>;
          k = k\<lparr>process_noise_cov := cvSetIdentity (process_noise_cov k) (1 / 10)\<rparr>;
          k = k\<lparr>measurement_noise_cov := cvSetIdentity (measurement_noise_cov k) (1 / 100000)\<rparr>;
          k = (case x0_i of
                 Some x \<Rightarrow> k\<lparr>state_post := (state_post k)\<lparr>fl := memcpy_fl (fl (state_post k)) x (DP k)\<rparr>\<rparr>
               | None \<Rightarrow> k\<lparr>state_post := cvZero (state_post k)\<rparr>)
      in if P0_i_set
         then k\<lparr>error_cov_post :=
                  (error_cov_post k)\<lparr>fl := memcpy_fl (fl (error_cov_post k)) P0_raw (DP k * DP k)\<rparr>\<rparr>
         else k\<lparr>error_cov_post := cvSetIdentity (error_cov_post k) 100\<rparr>)"

definition setup_kalman ::
  "CvKalman option list \<Rightarrow> nat \<Rightarrow> real list option list option \<Rightarrow> real list option list option \<Rightarrow>
   real list \<Rightarrow> CvKalman option list" where
  "setup_kalman kal n x0 P0 P0_raw =
     map (\<lambda>i. case kal ! i of
                 None \<Rightarrow> None
               | Some k \<Rightarrow>
                   Some (setup_one k
                     (case x0 of None \<Rightarrow> None | Some xs \<Rightarrow> xs ! i)
                     (case P0 of None \<Rightarrow> False | Some ps \<Rightarrow> ps ! i \<noteq> None)
                     P0_raw))
         [0..<n]
     @ drop n kal"

section \<open>Frame sources and concrete inputs\<close>










text \<open>A camera of focal length 2 and principal point (1, 1), turned a quarter about the z axis.\<close>

definition pinhole :: undistort where
  "pinhole a k p = ((fst p - cvmGet a 0 2) / cvmGet a 0 0, (snd p - cvmGet a 1 2) / cvmGet a 1 1)"

definition cam0 :: camera where
  "cam0 = \<lparr>cam_A = \<lparr>rows = 3, cols = 3, fl = [2, 0, 1, 0, 2, 1, 0, 0, 1]\<rparr>,
            cam_k = \<lparr>rows = 4, cols = 1, fl = [0, 0, 0, 0]\<rparr>,
            cam_R = \<lparr>rows = 3, cols = 3, fl = [0, - 1, 0, 1, 0, 0, 0, 0, 1]\<rparr>,
            cam_T = \<lparr>rows = 3, cols = 1, fl = [1, 2, 3]\<rparr>\<rparr>"

definition world0 :: CvMat where
  "world0 = \<lparr>rows = 3, cols = 1, fl = [7, 8, 9]\<rparr>"

definition win0 :: TrackingWindow where
  "win0 = \<lparr>roi = 0, roi_w = 64, roi_h = 64, img_w = 1024, img_h = 1024, roi_xoff = 4, roi_yoff = 2,
            blob_xmin = 0, blob_ymin = 0, blob_xmax = 2, blob_ymax = 2, img = None\<rparr>"

text \<open>A start-up in which only the file of the translation cannot be loaded.\<close>

definition env_no_trans :: startup_env where
  "env_no_trans =
     \<lparr>load_intrinsic = Some (cam_A cam0), load_distortion = Some (cam_k cam0),
      load_rot = Some (cam_R cam0), load_trans = None,
      create_world = Some world0, create_normalized = Some (cvCreateMat 1 2),
      create_distorted = Some (cvCreateMat 1 2), priority_class_ok = True,
      thread_priority_ok = True, last_error = 0, open_comm_rc = 0, init_cam_rc = 0,
      acquire_imgs_rc = 0\<rparr>"

text \<open>A grid of 2 by 2 corners, a frame that shows it, a frame that shows nothing.\<close>

definition grid22 :: Size where
  "grid22 = \<lparr>width = 2, height = 2\<rparr>"

definition board :: frame where
  "board = \<lparr>image = 1, chssbd_found = True, corners = [(10, 10), (20, 10), (10, 20), (20, 20)],
             corners_found = 4, kb_input = - 1\<rparr>"



definition no_views :: Views where
  "no_views = \<lparr>pixel = [], world = [], chessboards = [], save_views = False\<rparr>"



definition ignored_board :: capture where
  "ignored_board = (\<lambda>pos. if pos = 0 then Some (board\<lparr>kb_input := KEY_i\<rparr>) else None)"




text \<open>
  A tracking session as \<open>skeleton.cpp\<close> sets it up: an array of eight windows of which
  the first two (\<open>ROI_0\<close> and \<open>ROI_1\<close>, \<open>SEQ_LEN = 2\<close>) are configured and the others
  are zeroed by \<open>memset\<close>; image processing that leaves a window as it is; a frame whose
  tag decodes to the ROI 5.
\<close>

definition zero_window :: TrackingWindow where
  "zero_window = \<lparr>roi = 0, roi_w = 0, roi_h = 0, img_w = 0, img_h = 0, roi_xoff = 0, roi_yoff = 0,
                   blob_xmin = 0, blob_ymin = 0, blob_xmax = 0, blob_ymax = 0, img = None\<rparr>"

definition session0 :: loop_state where
  "session0 = \<lparr>windows = [win0, win0\<lparr>roi := 1\<rparr>, zero_window, zero_window, zero_window,
                            zero_window, zero_window, zero_window],
                img_nr = 1, roi_writes = [], comm = []\<rparr>"

definition id_imgproc :: imgproc where
  "id_imgproc = \<lparr>threshold = (\<lambda>w t. w), erode = (\<lambda>w. w), position = (\<lambda>w. w)\<rparr>"

definition frame_roi5 :: frame_in where
  "frame_roi5 = \<lparr>pic_nr = 1, tag_rc = 0, tag = 327680, ts_rc = 0, ts = 42,
                  img_ptr = Some 4096, comm_rc = 0\<rparr>"

text \<open>
  A filter of four state variables, two measured variables and one control variable,
  allocated but not set up, and the same after \<open>setup_kalman\<close> with the initial state
  (1, 2, 3, 4) and no initial covariance.
\<close>

definition blank_kalman :: CvKalman where
  "blank_kalman = \<lparr>MP = 2, DP = 4, CP = 1,
     state_pre = cvCreateMat 4 1, state_post = cvCreateMat 4 1,
     transition_matrix = cvCreateMat 4 4, control_matrix = cvCreateMat 4 1,
     measurement_matrix = cvCreateMat 2 4, process_noise_cov = cvCreateMat 4 4,
     measurement_noise_cov = cvCreateMat 2 2, error_cov_pre = cvCreateMat 4 4,
     gain = cvCreateMat 4 2, error_cov_post = cvCreateMat 4 4\<rparr>"

definition kal1 :: CvKalman where
  "kal1 = setup_one blank_kalman (Some [1, 2, 3, 4]) False []"

text \<open>
  An initial covariance that a caller supplies for filter 0, and numbers that stand for
  what the memory at the array of pointers reads as.
\<close>

definition P0_0 :: "real list" where
  "P0_0 = [5, 0, 0, 0, 0, 5, 0, 0, 0, 0, 5, 0, 0, 0, 0, 5]"

definition pointer_memory :: "real list" where
  "pointer_memory = [11, 12, 13, 14, 15, 16, 17, 18, 19, 20, 21, 22, 23, 24, 25, 26]"

section \<open>The projection is the composition of the specification\<close>

lemma upt_0_3: "[0..<3] = [0, 1, 2]"
  by (simp add: upt_rec numeral_eq_Suc)

lemma upt_0_4: "[0..<4] = [0, 1, 2, 3]"
  by (simp add: upt_rec numeral_eq_Suc)

lemma list_of_length_3: "length xs = 3 \<Longrightarrow> \<exists>a b c. xs = [a, b, c]"
  by (cases xs; simp; rename_tac y ys; case_tac ys; simp; rename_tac z zs; case_tac zs; simp)

lemma cvGEMM_transposed_3:
  assumes "is_mat 3 3 r" "rows w = 3" "cols w = 1" "fl w = [d0, d1, d2]"
  shows "fl (cvGEMM r w 1 None 0 True False) =
     [cvmGet r 0 0 * d0 + cvmGet r 1 0 * d1 + cvmGet r 2 0 * d2,
      cvmGet r 0 1 * d0 + cvmGet r 1 1 * d1 + cvmGet r 2 1 * d2,
      cvmGet r 0 2 * d0 + cvmGet r 1 2 * d1 + cvmGet r 2 2 * d2]"
  using assms
  by (simp add: cvGEMM_def cvScale_def cvMatMul_def cvT_def cvmGet_def is_mat_def upt_0_3
      numeral_eq_Suc)

lemma pixel2world_spec:
  assumes "is_mat 3 3 (cam_R cam)" "is_mat 3 1 (cam_T cam)" "is_mat 3 1 wbuf"
  shows "pixel2world u cam wbuf p z =
         spec_pixelToWorld u cam (real_of_int (fst p), real_of_int (snd p)) z"
proof -
  obtain a b c where w: "fl wbuf = [a, b, c]"
    using assms(3) list_of_length_3[of "fl wbuf"] unfolding is_mat_def by auto
  obtain t0 t1 t2 where t: "fl (cam_T cam) = [t0, t1, t2]"
    using assms(2) list_of_length_3[of "fl (cam_T cam)"] unfolding is_mat_def by auto
  show ?thesis
    using assms(3,2) w t
    by (simp add: pixel2world_def spec_pixelToWorld_def Let_def cvmSet_def cvSub_def
        cvGEMM_transposed_3[OF assms(1)] is_mat_def camera_point_def sub_translation_def
        rotate_transposed_def cvmGet_def)
qed

lemma skeleton_world_spec:
  assumes "is_mat 3 3 (cam_R cam)" "is_mat 3 1 (cam_T cam)" "is_mat 3 1 wbuf"
  shows "skeleton_world u cam wbuf cur z =
         spec_pixelToWorld u cam
           (real_of_int (roi_xoff cur) + real_of_int (blob_xmin cur + blob_xmax cur) / 2,
            real_of_int (roi_yoff cur) + real_of_int (blob_ymin cur + blob_ymax cur) / 2) z"
proof -
  obtain a b c where w: "fl wbuf = [a, b, c]"
    using assms(3) list_of_length_3[of "fl wbuf"] unfolding is_mat_def by auto
  obtain t0 t1 t2 where t: "fl (cam_T cam) = [t0, t1, t2]"
    using assms(2) list_of_length_3[of "fl (cam_T cam)"] unfolding is_mat_def by auto
  show ?thesis
    using assms(3,2) w t
    by (simp add: skeleton_world_def spec_pixelToWorld_def Let_def cvmSet_def cvSub_def
        cvGEMM_transposed_3[OF assms(1)] is_mat_def camera_point_def sub_translation_def
        rotate_transposed_def cvmGet_def cvGEMM_def[of _ _ _ _ _ _ _, THEN arg_cong[of _ _ cols]]
        cvScale_def cvMatMul_def)
qed

text \<open>
  C1. For every pixel \<open>p\<close> and depth \<open>z\<close>, \<open>pixel2world\<close> returns the x and y components
  of the composition: undistort \<open>p\<close> with the intrinsic matrix and the distortion
  coefficients, form the camera-frame point \<open>(z * nx, z * ny, z)\<close>, subtract the
  translation, multiply by the transpose of the rotation. The inlined projection of the
  tracking loop in \<open>skeleton.cpp\<close> is the same composition on the centre of the blob
  box. The rotation is 3 by 3, the translation and the scratch matrix are 3 by 1, as the
  calibration files and \<open>setup_world_frame\<close> make them; what the scratch matrix held
  before does not matter.
\<close>

theorem pixel2world_is_composition:
  assumes "is_mat 3 3 (cam_R cam)" "is_mat 3 1 (cam_T cam)" "is_mat 3 1 wbuf"
  shows "pixel2world u cam wbuf p z =
           spec_pixelToWorld u cam (real_of_int (fst p), real_of_int (snd p)) z
       \<and> skeleton_world u cam wbuf cur z =
           spec_pixelToWorld u cam
             (real_of_int (roi_xoff cur) + real_of_int (blob_xmin cur + blob_xmax cur) / 2,
              real_of_int (roi_yoff cur) + real_of_int (blob_ymin cur + blob_ymax cur) / 2) z"
  using pixel2world_spec[OF assms] skeleton_world_spec[OF assms] by simp

text \<open>
  The camera \<open>cam0\<close> at the pixel (5, 3) and depth 2: the normalised direction is
  (2, 1), the camera-frame point (4, 2, 2), minus the translation (3, 0, -1), and the
  transposed rotation maps that to (0, -3, -1).
\<close>

theorem pixel2world_is_composition_witness:
  "is_mat 3 3 (cam_R cam0) \<and> is_mat 3 1 (cam_T cam0) \<and> is_mat 3 1 world0
   \<and> pixel2world pinhole cam0 world0 (5, 3) 2 = (0, - 3)
   \<and> skeleton_world pinhole cam0 world0 win0 2 = (0, - 3)"
proof -
  have r: "is_mat 3 3 (cam_R cam0)" and t: "is_mat 3 1 (cam_T cam0)" and w: "is_mat 3 1 world0"
    by (simp_all add: is_mat_def cam0_def world0_def)
  have s: "spec_pixelToWorld pinhole cam0 (5, 3) 2 = (0, - 3)"
    by (simp add: spec_pixelToWorld_def rotate_transposed_def sub_translation_def
        camera_point_def pinhole_def cam0_def cvmGet_def)
  show ?thesis
    using pixel2world_is_composition[OF r t w, of pinhole "(5, 3)" 2 win0] r t w s
    by (simp add: win0_def)
qed

section \<open>Start-up with a missing calibration file\<close>

lemma main_startup_three_files:
  "load_intrinsic e = None \<or> load_distortion e = None \<or> load_rot e = None \<Longrightarrow>
   main_startup e = Exit (- EBADF)"
  by (auto simp: main_startup_def Let_def)

lemma setup_world_frame_all_files:
  "fst (setup_world_frame A k R T w n d) = CV_OK \<longleftrightarrow>
   A \<noteq> None \<and> k \<noteq> None \<and> R \<noteq> None \<and> T \<noteq> None \<and> w \<noteq> None \<and> n \<noteq> None \<and> d \<noteq> None"
  by (auto simp: setup_world_frame_def EBADF_def ENOMEM_def CV_OK_def split: option.splits)

text \<open>
  C5. A calibration file that cannot be loaded makes start-up return a non-zero error
  before tracking begins. \<open>setup_world_frame\<close> does so for each of the four files, and
  \<open>main\<close> of \<open>skeleton.cpp\<close> for three of them; after loading the translation it tests
  the rotation a second time. With only the translation missing, \<open>main\<close> returns no
  error: it opens the serial port, starts the acquisition and then reads the depth
  through the null pointer.
\<close>

theorem main_startup_missing_translation:
  "main_startup env_no_trans = NullRead
   \<and> fst (setup_world_frame (load_intrinsic env_no_trans) (load_distortion env_no_trans)
            (load_rot env_no_trans) (load_trans env_no_trans) (create_world env_no_trans)
            (create_normalized env_no_trans) (create_distorted env_no_trans)) = - EBADF"
  by (simp add: main_startup_def setup_world_frame_def env_no_trans_def FG_OK_def)

section \<open>World coordinates of the corners\<close>











section \<open>Termination and result of the collection loops\<close>

lemma chessboard_loop_not_None:
  "cam m = None \<Longrightarrow> pos \<le> m \<Longrightarrow> chessboard_loop cam n prompt wl pos g v \<noteq> None"
proof (induction "m - pos" arbitrary: pos g v prompt)
  case 0
  then have "cam pos = None" by simp
  then show ?case by (subst chessboard_loop.simps) simp
next
  case (Suc d)
  then have "d = m - Suc pos" "Suc pos \<le> m" by simp_all
  then have ih: "\<And>g v prompt. chessboard_loop cam n prompt wl (Suc pos) g v \<noteq> None"
    using Suc.hyps(1) Suc.prems(1) by blast
  show ?case
    by (subst chessboard_loop.simps) (simp add: Let_def ih split: option.split del: not_None_eq)
qed




















section \<open>Ignoring a view\<close>

text \<open>
  C7. In interactive mode the key \<open>i\<close> after a detection discards the view just
  collected, so that the stored correspondences are as many as the returned count.
  \<open>getChessboardViews\<close> only decrements the counter: on the source \<open>ignored_board\<close>,
  with one board that the user ignores, it returns 0 and keeps the ignored view in
  \<open>views.pixel\<close> and \<open>views.world\<close>.
\<close>

theorem ignored_view_is_kept:
  "(case getChessboardViews grid22 no_views ignored_board 1 True of
      Some (n, v) \<Rightarrow> n = 0 \<and> pixel v = [corners board] \<and> world v = [world_loc_of grid22]
    | None \<Rightarrow> False)"
  by (simp add: getChessboardViews_def chessboard_loop.simps ignored_board_def board_def
      Let_def push_view_def no_views_def)

section \<open>The ROI id of a frame\<close>

text \<open>
  C4, as the code has it. The loop makes no range check on the ROI id decoded from the
  tag. Whenever the reads of the tag and the time stamp succeed and the id lies inside
  the window array, configured or not, the iteration does not end in an error for the
  id: it stores the image pointer of the frame in that window; with a null pointer the
  loop then stops, and otherwise the window is thresholded, eroded and repositioned and
  its ROI is written to the camera.
\<close>

theorem roi_id_is_not_checked:
  assumes "tag_rc f = FG_OK" "ts_rc f = FG_OK" "unat (drop_bit 16 (tag f)) < length (windows s)"
  shows "loop_iteration ip u cam wbuf z s f \<noteq> OutOfArray
       \<and> (img_ptr f = None \<longrightarrow>
            (\<exists>s'. loop_iteration ip u cam wbuf z s f = Stop s'
                 \<and> windows s' = (windows s)[unat (drop_bit 16 (tag f)) :=
                      (windows s ! unat (drop_bit 16 (tag f)))\<lparr>img := None\<rparr>]))
       \<and> (img_ptr f \<noteq> None \<longrightarrow>
            (\<exists>s'. (loop_iteration ip u cam wbuf z s f = Next s'
                     \<or> loop_iteration ip u cam wbuf z s f = Stop s')
                 \<and> windows s' ! unat (drop_bit 16 (tag f)) =
                      position ip (erode ip (threshold ip
                        ((windows s ! unat (drop_bit 16 (tag f)))\<lparr>img := img_ptr f\<rparr>) THRESHOLD))
                 \<and> length (roi_writes s') = Suc (length (roi_writes s))))"
  using assms by (auto simp: loop_iteration_def Let_def)

lemma roi_of_frame_roi5: "unat (drop_bit 16 (tag frame_roi5)) = 5"
  by (simp add: frame_roi5_def unat_drop_bit_eq drop_bit_eq_div)

text \<open>
  The frame tagged with ROI 5 in the session with two configured windows: the iteration
  runs to its end on window 5. The same frame with a null image pointer: the iteration
  writes the null pointer into window 5 and stops the loop.
\<close>

theorem roi_id_is_not_checked_witness:
  "tag_rc frame_roi5 = FG_OK \<and> ts_rc frame_roi5 = FG_OK
   \<and> unat (drop_bit 16 (tag frame_roi5)) < length (windows session0)
   \<and> img_ptr frame_roi5 \<noteq> None
   \<and> loop_iteration id_imgproc pinhole cam0 world0 3 session0 frame_roi5 \<noteq> OutOfArray
   \<and> (\<exists>s'. (loop_iteration id_imgproc pinhole cam0 world0 3 session0 frame_roi5 = Next s'
             \<or> loop_iteration id_imgproc pinhole cam0 world0 3 session0 frame_roi5 = Stop s')
          \<and> windows s' ! 5 = zero_window\<lparr>img := Some 4096\<rparr>
          \<and> length (roi_writes s') = 1)
   \<and> img_ptr (frame_roi5\<lparr>img_ptr := None\<rparr>) = None
   \<and> (\<exists>s'. loop_iteration id_imgproc pinhole cam0 world0 3 session0
               (frame_roi5\<lparr>img_ptr := None\<rparr>) = Stop s'
          \<and> windows s' = (windows session0)[5 := zero_window\<lparr>img := None\<rparr>])"
proof -
  have h: "tag_rc frame_roi5 = FG_OK" "ts_rc frame_roi5 = FG_OK"
    "unat (drop_bit 16 (tag frame_roi5)) < length (windows session0)"
    by (simp_all add: roi_of_frame_roi5 session0_def) (simp_all add: frame_roi5_def FG_OK_def)
  have h': "tag_rc (frame_roi5\<lparr>img_ptr := None\<rparr>) = FG_OK"
    "ts_rc (frame_roi5\<lparr>img_ptr := None\<rparr>) = FG_OK"
    "unat (drop_bit 16 (tag (frame_roi5\<lparr>img_ptr := None\<rparr>))) < length (windows session0)"
    using h by simp_all
  have p: "img_ptr frame_roi5 = Some 4096"
    by (simp add: frame_roi5_def)
  have w: "windows session0 ! 5 = zero_window" "roi_writes session0 = []"
    by (simp_all add: session0_def)
  show ?thesis
    using roi_id_is_not_checked[OF h, of id_imgproc pinhole cam0 world0 3]
      roi_id_is_not_checked[OF h', of id_imgproc pinhole cam0 world0 3] h p w
    by (simp add: roi_of_frame_roi5 id_imgproc_def)
qed

text \<open>
  The claim as stated fails on that frame: ROI 5 is out of the range of the two
  configured windows, and the iteration ends in no error. It writes the image pointer
  into window 5, writes the ROI of that window to the camera, sends a position for ROI 5
  over the serial port and goes on to the next frame.
\<close>

theorem unconfigured_roi_counterexample:
  "(case loop_iteration id_imgproc pinhole cam0 world0 3 session0 frame_roi5 of
      Next s' \<Rightarrow>
        windows s' ! 5 = zero_window\<lparr>img := Some 4096\<rparr>
        \<and> windows s' ! 5 \<noteq> windows session0 ! 5
        \<and> roi_writes s' = [(0, zero_window\<lparr>img := Some 4096\<rparr>)]
        \<and> map fst (comm s') = [5]
        \<and> img_nr s' = 2
    | Stop s' \<Rightarrow> False
    | OutOfArray \<Rightarrow> False)"
  by (simp add: loop_iteration_def roi_of_frame_roi5 Let_def)
     (simp add: session0_def frame_roi5_def id_imgproc_def zero_window_def FG_OK_def
        NEXT_IMAGE_def)

section \<open>The Kalman filter: set-up, prediction and correction\<close>

lemma upt_0_2: "[0..<2] = [0, 1]"
  by (simp add: upt_rec numeral_eq_Suc)

lemma kal1_fields:
  "kal1 = \<lparr>MP = 2, DP = 4, CP = 1,
     state_pre = \<lparr>rows = 4, cols = 1, fl = [0, 0, 0, 0]\<rparr>,
     state_post = \<lparr>rows = 4, cols = 1, fl = [1, 2, 3, 4]\<rparr>,
     transition_matrix = \<lparr>rows = 4, cols = 4, fl = replicate 16 0\<rparr>,
     control_matrix = \<lparr>rows = 4, cols = 1, fl = [0, 0, 0, 0]\<rparr>,
     measurement_matrix = \<lparr>rows = 2, cols = 4, fl = [1, 0, 0, 0, 0, 1, 0, 0]\<rparr>,
     process_noise_cov = \<lparr>rows = 4, cols = 4,
       fl = [1 / 10, 0, 0, 0, 0, 1 / 10, 0, 0, 0, 0, 1 / 10, 0, 0, 0, 0, 1 / 10]\<rparr>,
     measurement_noise_cov = \<lparr>rows = 2, cols = 2, fl = [1 / 100000, 0, 0, 1 / 100000]\<rparr>,
     error_cov_pre = \<lparr>rows = 4, cols = 4, fl = replicate 16 0\<rparr>,
     gain = \<lparr>rows = 4, cols = 2, fl = replicate 8 0\<rparr>,
     error_cov_post = \<lparr>rows = 4, cols = 4,
       fl = [100, 0, 0, 0, 0, 100, 0, 0, 0, 0, 100, 0, 0, 0, 0, 100]\<rparr>\<rparr>"
  by (simp add: kal1_def setup_one_def blank_kalman_def cvCreateMat_def cvSetIdentity_def
      memcpy_fl_def upt_0_4 upt_0_2 Let_def numeral_eq_Suc)

text \<open>
  The prior of \<open>prediction\<close>, for every filter of four state variables and one control
  variable and every measurement that fits: the control vector is zeroed before
  \<open>cvKalmanPredict\<close>, so the control matrix, which holds the gravity terms, contributes
  nothing.
\<close>

lemma prediction_run:
  assumes "is_mat 4 4 (transition_matrix kal)" "is_mat 4 1 (control_matrix kal)" "CP kal = 1"
    "Z = MP kal" "MP kal \<le> length zs"
  shows "prediction Z kal dt (Some zs) =
     Inr (cvKalmanCorrect
            (cvKalmanPredict
               (kal\<lparr>transition_matrix := (transition_matrix kal)\<lparr>fl :=
                        [1, 0, dt, 0, 0, 1, 0, dt, 0, 0, 1, 0, 0, 0, 0, 1]\<rparr>,
                     control_matrix := (control_matrix kal)\<lparr>fl :=
                        [0, 0.5 * GRAVITY * dt * dt, 0, GRAVITY * dt]\<rparr>\<rparr>)
               (Some \<lparr>rows = 1, cols = 1, fl = [0]\<rparr>))
            \<lparr>rows = MP kal, cols = 1, fl = take (MP kal) zs\<rparr>)"
  using assms
  by (simp add: prediction_def Let_def memcpy_fl_def cvCreateMat_def cvZero_def is_mat_def)

lemma cvKalmanPredict_prior:
  assumes "is_mat 4 1 (state_post kal)" "is_mat 4 1 (control_matrix kal)" "CP kal = 1"
    "fl (state_post kal) = [x, y, vx, vy]" "is_mat 4 4 (transition_matrix kal)" "length b = 4"
  shows "state_pre (cvKalmanPredict
               (kal\<lparr>transition_matrix := (transition_matrix kal)\<lparr>fl :=
                        [1, 0, dt, 0, 0, 1, 0, dt, 0, 0, 1, 0, 0, 0, 0, 1]\<rparr>,
                     control_matrix := (control_matrix kal)\<lparr>fl := b\<rparr>\<rparr>)
               (Some \<lparr>rows = 1, cols = 1, fl = [0]\<rparr>)) =
         (control_matrix kal)\<lparr>fl := [x + vx * dt, y + vy * dt, vx, vy]\<rparr>"
proof -
  obtain b0 b1 b2 b3 where b: "b = [b0, b1, b2, b3]"
    using assms(6)
    by (cases b; simp; rename_tac ys; case_tac ys; simp; rename_tac zs; case_tac zs; simp;
        rename_tac ws; case_tac ws; simp)
  show ?thesis
    using assms(1-5)
    by (simp add: b cvKalmanPredict_def Let_def is_mat_def cvGEMM_def cvScale_def cvMatMul_def
        cvmGet_def upt_0_4 cvAdd_def numeral_eq_Suc)
qed

lemma prediction_prior:
  assumes "is_mat 4 1 (state_post kal)" "is_mat 4 4 (transition_matrix kal)"
    "is_mat 4 1 (control_matrix kal)" "CP kal = 1" "Z = MP kal" "MP kal \<le> length zs"
    "fl (state_post kal) = [x, y, vx, vy]"
  shows "(case prediction Z kal dt (Some zs) of
            Inr k \<Rightarrow> fl (state_pre k) = [x + vx * dt, y + vy * dt, vx, vy]
          | Inl _ \<Rightarrow> False)"
  using cvKalmanPredict_prior[OF assms(1,3,4,7) assms(2), of "[0, 0.5 * GRAVITY * dt * dt, 0, GRAVITY * dt]" dt]
  by (simp add: prediction_run[OF assms(2,3,4,5,6)] cvKalmanCorrect_def Let_def)

lemma prediction_kal1:
  "(case prediction 2 kal1 1 (Some [0, 0]) of
      Inr k \<Rightarrow> fl (state_pre k) = [4, 6, 3, 4]
             \<and> fl (state_post k) =
                 [4 / 20010001, 6 / 20010001, 20030003 / 20010001, 20040004 / 20010001]
    | Inl _ \<Rightarrow> False)"
  by (simp add: prediction_def kal1_fields cvKalmanCorrect_def cvKalmanPredict_def Let_def
      memcpy_fl_def cvSolve_def cvInvert_def cvT_def cvCreateMat_def cvZero_def cvGEMM_def
      cvScale_def cvMatMul_def cvmGet_def upt_0_4 upt_0_2 cvAdd_def numeral_eq_Suc)

text \<open>
  C2. A predict step with time step \<open>dt\<close> advances the vertical position by
  \<open>vy * dt + 0.5 * g * dt\<^sup>2\<close> and the vertical velocity by \<open>g * dt\<close>. \<open>prediction\<close>
  builds these gravity terms into the control matrix and then predicts with a zero
  control vector: from the state (1, 2, 3, 4) and \<open>dt = 1\<close> the prior is (4, 6, 3, 4),
  where the claim gives the vertical position \<open>2 + 4 + 0.5 * g\<close> and the vertical
  velocity \<open>4 + g\<close>.
\<close>

theorem prediction_prior_has_no_gravity:
  "(case prediction 2 kal1 1 (Some [0, 0]) of
      Inr k \<Rightarrow> fl (state_pre k) = [1 + 3 * 1, 2 + 4 * 1, 3, 4]
             \<and> fl (state_pre k) ! 1 \<noteq> 2 + 4 * 1 + 0.5 * GRAVITY * 1 * 1
             \<and> fl (state_pre k) ! 3 \<noteq> 4 + GRAVITY * 1
    | Inl _ \<Rightarrow> False)"
  using prediction_kal1 by (auto simp: GRAVITY_def split: sum.splits)

text \<open>
  What \<open>setup_kalman\<close> does as the claim says: the initial state is the caller's guess
  or zero, and without an initial covariance the covariance is 100 on the diagonal.
\<close>

lemma setup_one_state:
  "state_post (setup_one k (Some x) p raw) =
     (state_post k)\<lparr>fl := memcpy_fl (fl (state_post k)) x (DP k)\<rparr>"
  "state_post (setup_one k None p raw) = cvZero (state_post k)"
  "error_cov_post (setup_one k x0 False raw) = cvSetIdentity (error_cov_post k) 100"
  by (simp_all add: setup_one_def Let_def split: option.split)

lemma setup_one_covariance_from_pointer_array:
  "error_cov_post (setup_one k x0 True raw) =
     (error_cov_post k)\<lparr>fl := memcpy_fl (fl (error_cov_post k)) raw (DP k * DP k)\<rparr>"
  by (simp add: setup_one_def Let_def split: option.split)

text \<open>
  C8. Initialisation sets the covariance of filter \<open>i\<close> to the caller's \<open>P0[i]\<close> when
  it is given. \<open>setup_kalman\<close> copies from \<open>P0\<close>, the array of pointers, instead of
  \<open>P0[i]\<close>: for one filter and the initial covariance \<open>P0_0\<close>, the covariance after the
  set-up is what the memory at the pointer array reads as, not \<open>P0_0\<close>.
\<close>

theorem setup_kalman_copies_pointer_array:
  "(case setup_kalman [Some blank_kalman] 1 None (Some [Some P0_0]) pointer_memory ! 0 of
      Some k \<Rightarrow> fl (error_cov_post k) = pointer_memory
              \<and> fl (error_cov_post k) \<noteq> P0_0
              \<and> fl (state_post k) = [0, 0, 0, 0]
    | None \<Rightarrow> False)"
  by (simp add: setup_kalman_def setup_one_def blank_kalman_def Let_def memcpy_fl_def
      cvCreateMat_def cvZero_def pointer_memory_def P0_0_def numeral_eq_Suc)

lemma wf_kalman_kal1: "wf_kalman kal1"
  by (simp add: wf_kalman_def is_mat_def kal1_fields)

text \<open>
  C10, as the code has it. \<open>prediction\<close> has no predict-only mode. For a filter of four
  state variables and one control variable, with matrices of the sizes that go with its
  dimensions, and a measurement of \<open>Z_DIM = MP\<close> numbers: given the measurement,
  \<open>prediction\<close> runs the predict step, whose prior is the state moved by the transition
  matrix of the time step and whose covariance is \<open>A P A\<^sup>T + Q\<close>, and then the correct
  step on that measurement, so the state estimate it leaves is the prior plus the Kalman
  gain times the innovation; given a null measurement pointer it fails on the copy of
  the measurement, before the predict step.
\<close>

theorem prediction_always_corrects:
  assumes "wf_kalman kal" "DP kal = 4" "CP kal = 1" "Z = MP kal" "MP kal \<le> length zs"
    "fl (state_post kal) = [x, y, vx, vy]"
  shows "prediction Z kal dt None = Inl NullPointerRead
   \<and> (\<exists>k. prediction Z kal dt (Some zs) = Inr k
          \<and> state_pre k = (control_matrix kal)\<lparr>fl := [x + vx * dt, y + vy * dt, vx, vy]\<rparr>
          \<and> rows (state_pre k) = 4 \<and> cols (state_pre k) = 1
          \<and> error_cov_pre k =
              cvGEMM (cvGEMM ((transition_matrix kal)\<lparr>fl :=
                                [1, 0, dt, 0, 0, 1, 0, dt, 0, 0, 1, 0, 0, 0, 0, 1]\<rparr>)
                             (error_cov_post kal) 1 None 1 False False)
                     ((transition_matrix kal)\<lparr>fl :=
                                [1, 0, dt, 0, 0, 1, 0, dt, 0, 0, 1, 0, 0, 0, 0, 1]\<rparr>)
                     1 (Some (process_noise_cov kal)) 1 False True
          \<and> gain k =
              cvT (cvSolve
                     (cvGEMM (cvGEMM (measurement_matrix kal) (error_cov_pre k) 1 None 1 False False)
                             (measurement_matrix kal) 1 (Some (measurement_noise_cov kal)) 1
                             False True)
                     (cvGEMM (measurement_matrix kal) (error_cov_pre k) 1 None 1 False False))
          \<and> state_post k =
              cvAdd (cvScale 1 (cvMatMul (gain k)
                       (cvAdd (cvScale (- 1) (cvMatMul (measurement_matrix kal) (state_pre k)))
                              (cvScale 1 \<lparr>rows = MP kal, cols = 1, fl = take (MP kal) zs\<rparr>))))
                    (cvScale 1 (state_pre k)))"
proof -
  have t: "is_mat 4 4 (transition_matrix kal)" and c: "is_mat 4 1 (control_matrix kal)"
    and s: "is_mat 4 1 (state_post kal)"
    using assms(1,2,3) by (simp_all add: wf_kalman_def)
  define kal' where "kal' = kal\<lparr>transition_matrix := (transition_matrix kal)\<lparr>fl :=
                        [1, 0, dt, 0, 0, 1, 0, dt, 0, 0, 1, 0, 0, 0, 0, 1]\<rparr>,
                     control_matrix := (control_matrix kal)\<lparr>fl :=
                        [0, 0.5 * GRAVITY * dt * dt, 0, GRAVITY * dt]\<rparr>\<rparr>"
  define p where "p = cvKalmanPredict kal' (Some \<lparr>rows = 1, cols = 1, fl = [0]\<rparr>)"
  define k where "k = cvKalmanCorrect p \<lparr>rows = MP kal, cols = 1, fl = take (MP kal) zs\<rparr>"
  have run: "prediction Z kal dt (Some zs) = Inr k"
    unfolding k_def p_def kal'_def by (rule prediction_run[OF t c assms(3,4,5)])
  have none: "prediction Z kal dt None = Inl NullPointerRead"
    by (simp add: prediction_def Let_def)
  have p_pre: "state_pre p = (control_matrix kal)\<lparr>fl := [x + vx * dt, y + vy * dt, vx, vy]\<rparr>"
    unfolding p_def kal'_def
    by (rule cvKalmanPredict_prior[OF s c assms(3,6) t]) simp
  have p_cov: "error_cov_pre p =
      cvGEMM (cvGEMM ((transition_matrix kal)\<lparr>fl :=
                        [1, 0, dt, 0, 0, 1, 0, dt, 0, 0, 1, 0, 0, 0, 0, 1]\<rparr>)
                     (error_cov_post kal) 1 None 1 False False)
             ((transition_matrix kal)\<lparr>fl := [1, 0, dt, 0, 0, 1, 0, dt, 0, 0, 1, 0, 0, 0, 0, 1]\<rparr>)
             1 (Some (process_noise_cov kal)) 1 False True"
    by (simp add: p_def kal'_def cvKalmanPredict_def Let_def)
  have p_keep: "measurement_matrix p = measurement_matrix kal"
    "measurement_noise_cov p = measurement_noise_cov kal"
    by (simp_all add: p_def kal'_def cvKalmanPredict_def Let_def)
  have k_pre: "state_pre k = state_pre p" and k_cov: "error_cov_pre k = error_cov_pre p"
    by (simp_all add: k_def cvKalmanCorrect_def Let_def)
  have k_gain: "gain k =
      cvT (cvSolve
             (cvGEMM (cvGEMM (measurement_matrix p) (error_cov_pre p) 1 None 1 False False)
                     (measurement_matrix p) 1 (Some (measurement_noise_cov p)) 1 False True)
             (cvGEMM (measurement_matrix p) (error_cov_pre p) 1 None 1 False False))"
    by (simp add: k_def cvKalmanCorrect_def Let_def)
  have k_post: "state_post k =
      cvAdd (cvScale 1 (cvMatMul (gain k)
               (cvAdd (cvScale (- 1) (cvMatMul (measurement_matrix p) (state_pre p)))
                      (cvScale 1 \<lparr>rows = MP kal, cols = 1, fl = take (MP kal) zs\<rparr>))))
            (cvScale 1 (state_pre p))"
    by (simp add: k_def cvKalmanCorrect_def Let_def cvGEMM_def)
  have shape: "rows (state_pre k) = 4" "cols (state_pre k) = 1"
    using c by (simp_all add: k_pre p_pre is_mat_def)
  have "prediction Z kal dt (Some zs) = Inr k
          \<and> state_pre k = (control_matrix kal)\<lparr>fl := [x + vx * dt, y + vy * dt, vx, vy]\<rparr>
          \<and> rows (state_pre k) = 4 \<and> cols (state_pre k) = 1
          \<and> error_cov_pre k =
              cvGEMM (cvGEMM ((transition_matrix kal)\<lparr>fl :=
                                [1, 0, dt, 0, 0, 1, 0, dt, 0, 0, 1, 0, 0, 0, 0, 1]\<rparr>)
                             (error_cov_post kal) 1 None 1 False False)
                     ((transition_matrix kal)\<lparr>fl :=
                                [1, 0, dt, 0, 0, 1, 0, dt, 0, 0, 1, 0, 0, 0, 0, 1]\<rparr>)
                     1 (Some (process_noise_cov kal)) 1 False True
          \<and> gain k =
              cvT (cvSolve
                     (cvGEMM (cvGEMM (measurement_matrix kal) (error_cov_pre k) 1 None 1 False False)
                             (measurement_matrix kal) 1 (Some (measurement_noise_cov kal)) 1
                             False True)
                     (cvGEMM (measurement_matrix kal) (error_cov_pre k) 1 None 1 False False))
          \<and> state_post k =
              cvAdd (cvScale 1 (cvMatMul (gain k)
                       (cvAdd (cvScale (- 1) (cvMatMul (measurement_matrix kal) (state_pre k)))
                              (cvScale 1 \<lparr>rows = MP kal, cols = 1, fl = take (MP kal) zs\<rparr>))))
                    (cvScale 1 (state_pre k))"
    unfolding k_pre k_cov k_gain k_post p_keep
    using run p_pre p_cov shape[unfolded k_pre] by (intro conjI) simp_all
  then show ?thesis
    using none by blast
qed

text \<open>
  The filter \<open>kal1\<close> with the measurement (0, 0) and the time step 1: the prior is
  (4, 6, 3, 4), and the estimate that \<open>prediction\<close> leaves is the corrected one.
\<close>

theorem prediction_always_corrects_witness:
  "wf_kalman kal1 \<and> DP kal1 = 4 \<and> CP kal1 = 1 \<and> (2::nat) = MP kal1 \<and> MP kal1 \<le> length [0::real, 0]
   \<and> fl (state_post kal1) = [1, 2, 3, 4]
   \<and> prediction 2 kal1 1 None = Inl NullPointerRead
   \<and> (\<exists>k. prediction 2 kal1 1 (Some [0, 0]) = Inr k
          \<and> fl (state_pre k) = [4, 6, 3, 4]
          \<and> fl (state_post k) =
              [4 / 20010001, 6 / 20010001, 20030003 / 20010001, 20040004 / 20010001])"
proof -
  have h: "DP kal1 = 4" "CP kal1 = 1" "(2::nat) = MP kal1" "MP kal1 \<le> length [0::real, 0]"
    "fl (state_post kal1) = [1, 2, 3, 4]"
    by (simp_all add: kal1_fields)
  from prediction_always_corrects[OF wf_kalman_kal1 h, of 1]
  obtain k where k: "prediction 2 kal1 1 (Some [0, 0]) = Inr k"
    and none: "prediction 2 kal1 1 None = Inl NullPointerRead"
    and pre: "state_pre k = (control_matrix kal1)\<lparr>fl := [1 + 3 * 1, 2 + 4 * 1, 3, 4]\<rparr>"
    by blast
  have "fl (state_post k) =
      [4 / 20010001, 6 / 20010001, 20030003 / 20010001, 20040004 / 20010001]"
    using prediction_kal1 k by simp
  moreover have "fl (state_pre k) = [4, 6, 3, 4]"
    using pre by simp
  ultimately show ?thesis
    using wf_kalman_kal1 h none k by simp
qed

text \<open>
  The claim as stated fails on the filter \<open>kal1\<close>: with no measurement (a null pointer)
  \<open>prediction\<close> does not carry the estimate forward but fails, and with the measurement
  (0, 0) the estimate it leaves is the corrected one, not the prior (4, 6, 3, 4).
\<close>

theorem no_predict_only_counterexample:
  "prediction 2 kal1 1 None = Inl NullPointerRead
   \<and> (case prediction 2 kal1 1 (Some [0, 0]) of
        Inr k \<Rightarrow> fl (state_pre k) = [4, 6, 3, 4]
               \<and> fl (state_post k) =
                   [4 / 20010001, 6 / 20010001, 20030003 / 20010001, 20040004 / 20010001]
               \<and> fl (state_post k) \<noteq> fl (state_pre k)
      | Inl _ \<Rightarrow> False)"
  using prediction_kal1 by (auto simp: prediction_def split: sum.splits)

end
